theory Spec2Isabelle
  imports Complex_Main "HOL-Library.Sublist"
begin

section \<open>Strings\<close>

text \<open>
  Python strings are modelled as Isabelle strings: lists of 8-bit characters, the
  characters below 128 being ASCII and a character beyond ASCII being the bytes of its
  UTF-8 encoding. The character classes the source relies on (\<^verbatim>\<open>str.lower\<close>,
  \<^verbatim>\<open>str.strip\<close>, the regular expression class \<^verbatim>\<open>\d\<close>) are modelled on their
  ASCII part: Python also lower-cases letters, strips blanks and recognises digits outside
  ASCII, and the model leaves those bytes alone.
\<close>

definition lower_char :: "char \<Rightarrow> char" where
  "lower_char c =
     (case map_of (zip ''ABCDEFGHIJKLMNOPQRSTUVWXYZ'' ''abcdefghijklmnopqrstuvwxyz'') c of
        Some d \<Rightarrow> d
      | None \<Rightarrow> c)"

definition lower :: "string \<Rightarrow> string" where
  \<comment> \<open>\<^verbatim>\<open>str.lower()\<close>\<close>
  "lower s = map lower_char s"

definition is_digit :: "char \<Rightarrow> bool" where
  \<comment> \<open>the class \<^verbatim>\<open>\d\<close>\<close>
  "is_digit c = (48 \<le> (of_char c :: nat) \<and> (of_char c :: nat) \<le> 57)"

definition digit_val :: "char \<Rightarrow> nat" where
  "digit_val c = (of_char c :: nat) - 48"

definition is_space :: "char \<Rightarrow> bool" where
  \<comment> \<open>the ASCII characters for which \<^verbatim>\<open>str.isspace\<close> holds\<close>
  "is_space c = ((9 \<le> (of_char c :: nat) \<and> (of_char c :: nat) \<le> 13)
                 \<or> (28 \<le> (of_char c :: nat) \<and> (of_char c :: nat) \<le> 32))"

definition strip :: "string \<Rightarrow> string" where
  \<comment> \<open>\<^verbatim>\<open>str.strip()\<close>\<close>
  "strip s = rev (dropWhile is_space (rev (dropWhile is_space s)))"

definition contains :: "string \<Rightarrow> string \<Rightarrow> bool" where
  \<comment> \<open>\<^verbatim>\<open>p in s\<close> on strings: \<open>p\<close> occurs in \<open>s\<close> as a contiguous run\<close>
  "contains p s = sublist p s"

fun rfind_from :: "char \<Rightarrow> nat \<Rightarrow> string \<Rightarrow> int \<Rightarrow> int" where
  "rfind_from c i [] best = best"
| "rfind_from c i (x # xs) best = rfind_from c (Suc i) xs (if x = c then int i else best)"

definition rfind :: "char \<Rightarrow> string \<Rightarrow> int" where
  \<comment> \<open>\<^verbatim>\<open>s.rfind(c)\<close>: the highest index of \<open>c\<close> in \<open>s\<close>, or \<open>-1\<close>\<close>
  "rfind c s = rfind_from c 0 s (- 1)"

definition replace_char :: "char \<Rightarrow> char \<Rightarrow> string \<Rightarrow> string" where
  \<comment> \<open>\<^verbatim>\<open>s.replace(c, d)\<close> for one-character strings \<open>c\<close> and \<open>d\<close>\<close>
  "replace_char c d s = map (\<lambda>x. if x = c then d else x) s"

definition remove_char :: "char \<Rightarrow> string \<Rightarrow> string" where
  \<comment> \<open>\<^verbatim>\<open>s.replace(c, '')\<close>\<close>
  "remove_char c s = filter (\<lambda>x. x \<noteq> c) s"

fun remove_first :: "char \<Rightarrow> nat \<Rightarrow> string \<Rightarrow> string" where
  \<comment> \<open>\<^verbatim>\<open>s.replace(c, '', n)\<close>: only the first \<open>n\<close> occurrences are removed\<close>
  "remove_first c n [] = []"
| "remove_first c n (x # xs) =
     (if x = c \<and> 0 < n then remove_first c (n - 1) xs else x # remove_first c n xs)"


section \<open>Store detection\<close>

definition detect_store :: "string \<Rightarrow> string" where
  "detect_store url =
     (let url_lower = lower url in
      if contains ''mercadolibre'' url_lower \<or> contains ''meli'' url_lower then ''mercadolibre''
      else if contains ''amazon'' url_lower then ''amazon''
      else if contains ''hardgamers'' url_lower then ''hardgamers''
      else if contains ''garbarino'' url_lower then ''garbarino''
      else if contains ''fravega'' url_lower then ''fravega''
      else if contains ''musimundo'' url_lower then ''musimundo''
      else if contains ''fullh4rd'' url_lower then ''fullh4rd''
      else ''generic'')"

text \<open>
  The detector as the specification words it: the URL is lower-cased, and an ordered
  table of substring predicates is tested on the result; the first entry with a matching
  pattern wins, and \<open>generic\<close> when none matches. Lower-casing is stated here by
  character codes, on its own: a capital letter, code 65 to 90, becomes the letter 32
  codes above it, and every other character stays. \<open>ascii_upper\<close> is the converse
  mapping. On a URL of ASCII characters this is what \<^verbatim>\<open>str.lower\<close> and
  \<^verbatim>\<open>str.upper\<close> do.
\<close>

definition is_ascii :: "char \<Rightarrow> bool" where
  "is_ascii c = ((of_char c :: nat) < 128)"

definition ascii_lower :: "char \<Rightarrow> char" where
  "ascii_lower c =
     (if 65 \<le> (of_char c :: nat) \<and> (of_char c :: nat) \<le> 90
      then char_of ((of_char c :: nat) + 32) else c)"

definition ascii_upper :: "char \<Rightarrow> char" where
  "ascii_upper c =
     (if 97 \<le> (of_char c :: nat) \<and> (of_char c :: nat) \<le> 122
      then char_of ((of_char c :: nat) - 32) else c)"

definition store_table :: "(string list \<times> string) list" where
  "store_table =
     [([''mercadolibre'', ''meli''], ''mercadolibre''),
      ([''amazon''], ''amazon''),
      ([''hardgamers''], ''hardgamers''),
      ([''garbarino''], ''garbarino''),
      ([''fravega''], ''fravega''),
      ([''musimundo''], ''musimundo''),
      ([''fullh4rd''], ''fullh4rd'')]"

fun first_match :: "(string list \<times> string) list \<Rightarrow> string \<Rightarrow> string" where
  "first_match [] s = ''generic''"
| "first_match ((pats, store) # rest) s =
     (if list_ex (\<lambda>p. contains p s) pats then store else first_match rest s)"

definition detect_spec :: "string \<Rightarrow> string" where
  "detect_spec url = first_match store_table (map ascii_lower url)"

definition store_identifiers :: "string list" where
  "store_identifiers =
     [''mercadolibre'', ''amazon'', ''hardgamers'', ''garbarino'', ''fravega'',
      ''musimundo'', ''fullh4rd'', ''generic'']"


section \<open>Price text normalisation\<close>

text \<open>
  A Python float is represented by the exact decimal value it was read from, a rational
  number; the float itself is that value rounded to the nearest double (to infinity when
  it is too large). Two floats read from the same decimal are equal, and a float read
  from a non-negative decimal is non-negative.

  \<open>py_float\<close> is \<^verbatim>\<open>float(s)\<close> on the strings \<open>parse_price_text\<close> hands to it, which
  consist of digits, periods and commas only: it reads an integer part, optionally a
  period and a fractional part, with a digit on at least one side, and is \<open>None\<close> (the
  \<^verbatim>\<open>ValueError\<close> of the source) on everything else.
\<close>

definition digits_val :: "string \<Rightarrow> nat" where
  "digits_val ds = fold (\<lambda>c n. 10 * n + digit_val c) ds 0"

definition py_float :: "string \<Rightarrow> rat option" where
  "py_float s =
     (let ip = takeWhile (\<lambda>c. c \<noteq> CHR ''.'') s;
          rest = dropWhile (\<lambda>c. c \<noteq> CHR ''.'') s
      in case rest of
           [] \<Rightarrow> (if ip \<noteq> [] \<and> list_all is_digit ip
                  then Some (of_nat (digits_val ip)) else None)
         | _ # fp \<Rightarrow>
             (if list_all is_digit ip \<and> list_all is_digit fp \<and> (ip \<noteq> [] \<or> fp \<noteq> [])
              then Some (of_nat (digits_val (ip @ fp)) / 10 ^ length fp) else None))"

definition re_sub_price :: "string \<Rightarrow> string" where
  \<comment> \<open>\<^verbatim>\<open>re.sub(r'[^\d.,]', '', s)\<close>\<close>
  "re_sub_price s = filter (\<lambda>c. is_digit c \<or> c = CHR ''.'' \<or> c = CHR '','') s"

definition normalise_separators :: "string \<Rightarrow> string" where
  \<comment> \<open>the \<^verbatim>\<open>if\<close>/\<^verbatim>\<open>elif\<close> chain of \<open>parse_price_text\<close> on the cleaned text\<close>
  "normalise_separators cleaned =
     (if CHR '','' \<in> set cleaned \<and> CHR ''.'' \<in> set cleaned then
        (if rfind CHR '','' cleaned > rfind CHR ''.'' cleaned
         then replace_char CHR '','' CHR ''.'' (remove_char CHR ''.'' cleaned)
         else remove_char CHR '','' cleaned)
      else if CHR '','' \<in> set cleaned then replace_char CHR '','' CHR ''.'' cleaned
      else if count_list cleaned CHR ''.'' > 1
        then remove_first CHR ''.'' (count_list cleaned CHR ''.'' - 1) cleaned
      else cleaned)"

definition parse_price_text :: "string \<Rightarrow> rat option" where
  "parse_price_text text =
     (if text = [] then None
      else py_float (normalise_separators (re_sub_price (strip text))))"

text \<open>
  The words of the specification about the two separators: the separator that occurs
  later in a text is the last comma or period of the text, and the other separator is
  the one of the two that it is not.
\<close>

definition is_sep :: "char \<Rightarrow> bool" where
  "is_sep c = (c = CHR '','' \<or> c = CHR ''.'')"

definition later_separator :: "string \<Rightarrow> char option" where
  "later_separator text = (case rev (filter is_sep text) of [] \<Rightarrow> None | c # _ \<Rightarrow> Some c)"

definition other_separator :: "char \<Rightarrow> char" where
  "other_separator c = (if c = CHR '','' then CHR ''.'' else CHR '','')"


section \<open>Documents\<close>

text \<open>
  BeautifulSoup is a library, not code of the repository: a parsed document is modelled
  by what its queries answer. \<open>find_all\<close> lists the elements matching a selector in
  document order, \<open>find_all_string\<close> the text nodes matching a pattern; the patterns stay
  opaque. \<^verbatim>\<open>soup.find\<close> is the first answer of \<^verbatim>\<open>soup.find_all\<close>, as in the library.
\<close>

record element =
  el_name :: string
  el_text :: string
  el_attrs :: "(string \<times> string) list"

text \<open>
  \<open>el_name\<close> is \<^verbatim>\<open>tag.name\<close>, \<open>el_text\<close> is \<^verbatim>\<open>tag.get_text(strip=True)\<close> and
  \<open>el_attrs\<close> is \<^verbatim>\<open>tag.attrs\<close>.
\<close>

datatype matcher =
    Str string
  | Re string
  | Re_I string

text \<open>
  An attribute filter is a plain string (\<open>Str\<close>), a compiled pattern
  \<^verbatim>\<open>re.compile(p)\<close> (\<open>Re\<close>) or a case-insensitive one \<^verbatim>\<open>re.compile(p, re.I)\<close>
  (\<open>Re_I\<close>). A selector is a tag name, if any, and the attribute filters.
\<close>

datatype selector = Selector "string option" "(string \<times> matcher) list"

record soup =
  find_all :: "selector \<Rightarrow> element list"
  find_all_string :: "matcher \<Rightarrow> string list"

definition soup_find :: "soup \<Rightarrow> selector \<Rightarrow> element option" where
  "soup_find s sel = (case find_all s sel of [] \<Rightarrow> None | e # _ \<Rightarrow> Some e)"

definition soup_find_string :: "soup \<Rightarrow> matcher \<Rightarrow> string option" where
  "soup_find_string s m = (case find_all_string s m of [] \<Rightarrow> None | t # _ \<Rightarrow> Some t)"

definition attr_get :: "element \<Rightarrow> string \<Rightarrow> string \<Rightarrow> string" where
  \<comment> \<open>\<^verbatim>\<open>tag.get(key, default)\<close>\<close>
  "attr_get e k dflt = (case map_of (el_attrs e) k of Some v \<Rightarrow> v | None \<Rightarrow> dflt)"

definition or_else :: "'a option \<Rightarrow> 'a option \<Rightarrow> 'a option" where
  \<comment> \<open>\<^verbatim>\<open>a or b\<close> on the results of \<^verbatim>\<open>find\<close>: a tag is always truthy\<close>
  "or_else a b = (case a of Some x \<Rightarrow> Some x | None \<Rightarrow> b)"

definition truthy :: "rat option \<Rightarrow> bool" where
  \<comment> \<open>the truth value of an optional float: \<^verbatim>\<open>None\<close> and \<^verbatim>\<open>0.0\<close> are false\<close>
  "truthy p = (case p of None \<Rightarrow> False | Some v \<Rightarrow> v \<noteq> 0)"

definition str_truthy :: "string option \<Rightarrow> bool" where
  \<comment> \<open>the truth value of an optional string: \<^verbatim>\<open>None\<close> and the empty string are false\<close>
  "str_truthy t = (case t of None \<Rightarrow> False | Some x \<Rightarrow> x \<noteq> [])"


section \<open>Parsers\<close>

text \<open>
  The dictionary every parser returns has the four keys \<^verbatim>\<open>price\<close>, \<^verbatim>\<open>currency\<close>,
  \<^verbatim>\<open>in_stock\<close> and \<^verbatim>\<open>name\<close>; as a record its fields carry the prefix \<open>d_\<close>.
  The parsers only query the document and convert texts, and none of these steps raises.
\<close>

record raw =
  d_price :: "rat option"
  d_currency :: string
  d_in_stock :: bool
  d_name :: string

definition parse_mercadolibre :: "soup \<Rightarrow> string \<Rightarrow> raw" where
  "parse_mercadolibre soup url =
     (let result = \<lparr>d_price = None, d_currency = ''ARS'', d_in_stock = True, d_name = ''''\<rparr>;
          name_tag = or_else
            (soup_find soup (Selector (Some ''h1'') [(''class'', Re ''ui-pdp-title'')]))
            (soup_find soup (Selector (Some ''h1'') [(''class'', Re ''item-title'')]));
          result = (case name_tag of
                      Some t \<Rightarrow> result\<lparr>d_name := el_text t\<rparr>
                    | None \<Rightarrow> result);
          price_tag = or_else
            (soup_find soup
               (Selector (Some ''span'') [(''class'', Re ''andes-money-amount__fraction'')]))
            (soup_find soup (Selector (Some ''meta'') [(''itemprop'', Str ''price'')]));
          result = (case price_tag of
                      None \<Rightarrow> result
                    | Some t \<Rightarrow>
                        if el_name t = ''meta''
                        then result\<lparr>d_price := parse_price_text (attr_get t ''content'' '''')\<rparr>
                        else
                          (let price_text = el_text t;
                               cents_tag = soup_find soup
                                 (Selector (Some ''span'')
                                    [(''class'', Re ''andes-money-amount__cents'')]);
                               price_text = (case cents_tag of
                                               Some c \<Rightarrow> price_text @ ''.'' @ el_text c
                                             | None \<Rightarrow> price_text)
                           in result\<lparr>d_price := parse_price_text price_text\<rparr>));
          no_stock = soup_find_string soup (Re_I ''sin stock|agotado|no disponible'')
      in if str_truthy no_stock then result\<lparr>d_in_stock := False\<rparr> else result)"

definition price_selectors :: "selector list" where
  "price_selectors =
     [Selector (Some ''span'') [(''id'', Str ''priceblock_ourprice'')],
      Selector (Some ''span'') [(''id'', Str ''priceblock_dealprice'')],
      Selector (Some ''span'') [(''class'', Re ''a-price-whole'')],
      Selector (Some ''span'') [(''id'', Str ''price_inside_buybox'')]]"

fun amazon_price_loop :: "soup \<Rightarrow> selector list \<Rightarrow> rat option \<Rightarrow> rat option" where
  \<comment> \<open>the \<^verbatim>\<open>for tag, attrs in price_selectors\<close> loop; the third argument is
     \<^verbatim>\<open>result["price"]\<close> so far\<close>
  "amazon_price_loop soup [] price = price"
| "amazon_price_loop soup (sel # rest) price =
     (case soup_find soup sel of
        None \<Rightarrow> amazon_price_loop soup rest price
      | Some price_tag \<Rightarrow>
          (let price_text = el_text price_tag;
               frac_tag = soup_find soup
                 (Selector (Some ''span'') [(''class'', Str ''a-price-fraction'')]);
               price_text = (case frac_tag of
                               Some f \<Rightarrow> if \<not> contains ''.'' price_text
                                         then price_text @ ''.'' @ el_text f
                                         else price_text
                             | None \<Rightarrow> price_text);
               price = parse_price_text price_text
           in if truthy price then price else amazon_price_loop soup rest price))"

definition euro_sign :: string where
  \<comment> \<open>the euro sign, U+20AC, in UTF-8\<close>
  "euro_sign = [CHR 0xE2, CHR 0x82, CHR 0xAC]"

definition parse_amazon :: "soup \<Rightarrow> string \<Rightarrow> raw" where
  "parse_amazon soup url =
     (let result = \<lparr>d_price = None, d_currency = ''USD'', d_in_stock = True, d_name = ''''\<rparr>;
          name_tag = soup_find soup (Selector (Some ''span'') [(''id'', Str ''productTitle'')]);
          result = (case name_tag of
                      Some t \<Rightarrow> result\<lparr>d_name := el_text t\<rparr>
                    | None \<Rightarrow> result);
          result = result\<lparr>d_price := amazon_price_loop soup price_selectors (d_price result)\<rparr>;
          unavailable =
            (soup_find soup (Selector None [(''id'', Str ''outOfStock'')]) \<noteq> None
             \<or> str_truthy (soup_find_string soup (Re_I ''unavailable|out of stock'')));
          result = (if unavailable then result\<lparr>d_in_stock := False\<rparr> else result);
          currency_tag = soup_find soup
            (Selector (Some ''span'') [(''class'', Str ''a-price-symbol'')])
      in case currency_tag of
           None \<Rightarrow> result
         | Some t \<Rightarrow>
             (let symbol = el_text t
              in if contains ''$'' symbol then result\<lparr>d_currency := ''USD''\<rparr>
                 else if contains euro_sign symbol then result\<lparr>d_currency := ''EUR''\<rparr>
                 else result))"

definition parse_hardgamers :: "soup \<Rightarrow> string \<Rightarrow> raw" where
  "parse_hardgamers soup url =
     (let result = \<lparr>d_price = None, d_currency = ''ARS'', d_in_stock = True, d_name = ''''\<rparr>;
          name_tag = or_else
            (soup_find soup
               (Selector (Some ''h1'') [(''class'', Re_I ''product.*title|title.*product'')]))
            (soup_find soup (Selector (Some ''h1'') []));
          result = (case name_tag of
                      Some t \<Rightarrow> result\<lparr>d_name := el_text t\<rparr>
                    | None \<Rightarrow> result);
          price_tag = or_else
            (soup_find soup (Selector (Some ''span'') [(''class'', Re_I ''price|precio'')]))
            (soup_find soup (Selector (Some ''p'') [(''class'', Re_I ''price|precio'')]));
          result = (case price_tag of
                      Some t \<Rightarrow> result\<lparr>d_price := parse_price_text (el_text t)\<rparr>
                    | None \<Rightarrow> result);
          no_stock = soup_find_string soup (Re_I ''sin stock|agotado'')
      in if str_truthy no_stock then result\<lparr>d_in_stock := False\<rparr> else result)"

fun generic_price_loop :: "element list \<Rightarrow> rat option" where
  \<comment> \<open>the \<^verbatim>\<open>for tag in soup.find_all(...)\<close> loop of \<open>parse_generic\<close>: the first
     price that is truthy and positive, \<open>None\<close> when the loop ends without one\<close>
  "generic_price_loop [] = None"
| "generic_price_loop (tag # tags) =
     (let text = el_text tag;
          price = parse_price_text text
      in case price of
           None \<Rightarrow> generic_price_loop tags
         | Some v \<Rightarrow> if v \<noteq> 0 \<and> v > 0 then price else generic_price_loop tags)"

definition parse_generic :: "soup \<Rightarrow> string \<Rightarrow> raw" where
  "parse_generic soup url =
     (let result = \<lparr>d_price = None, d_currency = ''ARS'', d_in_stock = True, d_name = ''''\<rparr>;
          og_title = soup_find soup (Selector (Some ''meta'') [(''property'', Str ''og:title'')]);
          result = (case og_title of
                      Some t \<Rightarrow> result\<lparr>d_name := attr_get t ''content'' ''''\<rparr>
                    | None \<Rightarrow>
                        (case soup_find soup (Selector (Some ''h1'') []) of
                           Some h1 \<Rightarrow> result\<lparr>d_name := el_text h1\<rparr>
                         | None \<Rightarrow> result));
          og_price = soup_find soup
            (Selector (Some ''meta'') [(''property'', Str ''product:price:amount'')])
      in case og_price of
           Some t \<Rightarrow> result\<lparr>d_price := parse_price_text (attr_get t ''content'' '''')\<rparr>
         | None \<Rightarrow>
             (case generic_price_loop
                     (find_all soup (Selector None [(''class'', Re_I ''price|precio'')])) of
                Some v \<Rightarrow> result\<lparr>d_price := Some v\<rparr>
              | None \<Rightarrow> result))"

definition PARSERS :: "(string \<times> (soup \<Rightarrow> string \<Rightarrow> raw)) list" where
  "PARSERS =
     [(''mercadolibre'', parse_mercadolibre),
      (''amazon'', parse_amazon),
      (''hardgamers'', parse_hardgamers),
      (''garbarino'', parse_generic),
      (''fravega'', parse_generic),
      (''musimundo'', parse_generic),
      (''fullh4rd'', parse_generic),
      (''generic'', parse_generic)]"

definition PARSERS_get :: "string \<Rightarrow> soup \<Rightarrow> string \<Rightarrow> raw" where
  \<comment> \<open>\<^verbatim>\<open>PARSERS.get(store, parse_generic)\<close>\<close>
  "PARSERS_get store =
     (case map_of PARSERS store of Some parser \<Rightarrow> parser | None \<Rightarrow> parse_generic)"


section \<open>The world outside\<close>

text \<open>
  What the network, the random user agent and the browser do during one call is a value
  of type \<open>world\<close>. \<open>requests_get\<close> is the text of the response to the GET request
  (\<open>None\<close> when \<^verbatim>\<open>requests.get\<close> or \<^verbatim>\<open>raise_for_status\<close> raises), \<open>beautiful_soup\<close>
  is \<^verbatim>\<open>BeautifulSoup(text, "lxml")\<close> (\<open>None\<close> when it raises). For Playwright the
  world says which calls raise and what \<^verbatim>\<open>page.content()\<close> returns.

  \<open>loop_running\<close> says whether an asyncio event loop is already running in the calling
  thread, as it is in the handlers of \<^verbatim>\<open>telegram_bot.py\<close>, which are coroutines and
  call \<open>scrape_product\<close> directly; \<^verbatim>\<open>asyncio.run\<close> then raises \<^verbatim>\<open>RuntimeError\<close>
  before the coroutine it was given starts.
\<close>

datatype py_error = RuntimeError

datatype pw_call =
    Launch | New_context | New_page | Route | Goto | Wait_for_timeout | Content
  | Browser_close

datatype event =
    Enter         \<comment> \<open>\<^verbatim>\<open>async_playwright().__aenter__\<close>: the session starts\<close>
  | Call pw_call
  | Exit          \<comment> \<open>\<^verbatim>\<open>__aexit__\<close>: the session is stopped\<close>

record world =
  requests_get :: "string \<Rightarrow> string option"
  beautiful_soup :: "string \<Rightarrow> soup option"
  pw_import_raises :: bool
  pw_enter_raises :: bool
  pw_call_raises :: "pw_call \<Rightarrow> bool"
  pw_exit_raises :: bool
  pw_page_content :: "string \<Rightarrow> string"
  loop_running :: bool


section \<open>Fetch strategies\<close>

definition scrape_with_bs4 :: "world \<Rightarrow> string \<Rightarrow> string \<Rightarrow> raw option" where
  "scrape_with_bs4 w url store =
     (case requests_get w url of
        None \<Rightarrow> None
      | Some text \<Rightarrow>
          (case beautiful_soup w text of
             None \<Rightarrow> None
           | Some soup \<Rightarrow>
               (let parser = PARSERS_get store;
                    data = parser soup url
                in if truthy (d_price data) then Some data else None)))"

text \<open>
  The calls made inside the \<^verbatim>\<open>async with\<close> block, in order. \<open>run_calls\<close> makes them
  one after the other and stops at the first that raises; it returns the calls made and
  whether all of them returned.
\<close>

definition session_calls :: "pw_call list" where
  "session_calls =
     [Launch, New_context, New_page, Route, Goto, Wait_for_timeout, Content, Browser_close]"

fun run_calls :: "(pw_call \<Rightarrow> bool) \<Rightarrow> pw_call list \<Rightarrow> event list \<times> bool" where
  "run_calls raises [] = ([], True)"
| "run_calls raises (c # cs) =
     (if raises c then ([Call c], False)
      else (let (evs, ok) = run_calls raises cs in (Call c # evs, ok)))"

definition playwright_session :: "world \<Rightarrow> string \<Rightarrow> string option \<times> event list" where
  \<comment> \<open>the import and the \<^verbatim>\<open>async with\<close> statement: the content of the page, or \<open>None\<close>
     when an exception leaves the block, and the calls made; a block that was entered is
     left through \<^verbatim>\<open>__aexit__\<close>, whether its body raised or not\<close>
  "playwright_session w url =
     (if pw_import_raises w then (None, [])
      else if pw_enter_raises w then (None, [Enter])
      else
        (let (evs, ok) = run_calls (pw_call_raises w) session_calls;
             trace = Enter # evs @ [Exit]
         in if ok \<and> \<not> pw_exit_raises w then (Some (pw_page_content w url), trace)
            else (None, trace)))"

definition scrape_with_playwright_async ::
  "world \<Rightarrow> string \<Rightarrow> string \<Rightarrow> raw option \<times> event list" where
  "scrape_with_playwright_async w url store =
     (case playwright_session w url of
        (None, trace) \<Rightarrow> (None, trace)
      | (Some content, trace) \<Rightarrow>
          (case beautiful_soup w content of
             None \<Rightarrow> (None, trace)
           | Some soup \<Rightarrow>
               (let parser = PARSERS_get store;
                    data = parser soup url
                in (if truthy (d_price data) then Some data else None, trace))))"

definition scrape_with_playwright ::
  "world \<Rightarrow> string \<Rightarrow> string \<Rightarrow> py_error + raw option" where
  \<comment> \<open>\<^verbatim>\<open>asyncio.run(scrape_with_playwright_async(url, store))\<close>\<close>
  "scrape_with_playwright w url store =
     (if loop_running w then Inl RuntimeError
      else Inr (fst (scrape_with_playwright_async w url store)))"


section \<open>The orchestrator\<close>

text \<open>
  The fields of the dataclass \<^verbatim>\<open>ScrapeResult\<close> carry the prefix \<open>r_\<close>, the keys of the
  product dictionary the prefix \<open>p_\<close>; the key \<^verbatim>\<open>store\<close> may be absent. The pacing
  delay, taken to be a valid non-negative one, and the progress messages have no part in
  the result and are left out.
\<close>

record ScrapeResult =
  r_product_id :: int
  r_name :: string
  r_url :: string
  r_store :: string
  r_price :: "rat option"
  r_currency :: string
  r_in_stock :: bool
  r_error :: "string option"

record product =
  p_id :: int
  p_name :: string
  p_url :: string
  p_store :: "string option"

definition has_price :: "raw option \<Rightarrow> bool" where
  \<comment> \<open>\<^verbatim>\<open>data and data.get("price")\<close>\<close>
  "has_price data = (case data of None \<Rightarrow> False | Some d \<Rightarrow> truthy (d_price d))"

definition resolve_store :: "product \<Rightarrow> string" where
  \<comment> \<open>\<^verbatim>\<open>product.get("store") or detect_store(url)\<close>\<close>
  "resolve_store product =
     (case p_store product of
        None \<Rightarrow> detect_store (p_url product)
      | Some s \<Rightarrow> if s \<noteq> [] then s else detect_store (p_url product))"

definition scrape_result :: "product \<Rightarrow> string \<Rightarrow> raw option \<Rightarrow> ScrapeResult" where
  \<comment> \<open>the final \<^verbatim>\<open>if data and data.get("price")\<close> of \<open>scrape_product\<close> and its two
     \<^verbatim>\<open>return\<close> statements\<close>
  "scrape_result product store data =
     (let url = p_url product;
          product_id = p_id product;
          original_name = p_name product;
          failed = \<lparr>r_product_id = product_id, r_name = original_name, r_url = url,
                    r_store = store, r_price = None, r_currency = ''ARS'',
                    r_in_stock = False,
                    r_error = Some ''No se pudo extraer el precio con BS4 ni Playwright.''\<rparr>
      in case data of
           None \<Rightarrow> failed
         | Some d \<Rightarrow>
             if truthy (d_price d)
             then \<lparr>r_product_id = product_id,
                   r_name = (if d_name d \<noteq> [] then d_name d else original_name),
                   r_url = url, r_store = store, r_price = d_price d,
                   r_currency = d_currency d, r_in_stock = d_in_stock d, r_error = None\<rparr>
             else failed)"

definition scrape_product :: "world \<Rightarrow> product \<Rightarrow> py_error + ScrapeResult" where
  "scrape_product w product =
     (let url = p_url product;
          store = resolve_store product;
          data = scrape_with_bs4 w url store
      in if \<not> has_price data
         then (case scrape_with_playwright w url store of
                 Inl e \<Rightarrow> Inl e
               | Inr data \<Rightarrow> Inr (scrape_result product store data))
         else Inr (scrape_result product store data))"


text \<open>
  The document each strategy hands to its parser, if any: the lightweight one parses the
  text of the response, the heavy one the content of the rendered page, unless
  \<^verbatim>\<open>asyncio.run\<close> raises.
\<close>

definition fetched_bs4 :: "world \<Rightarrow> string \<Rightarrow> soup option" where
  "fetched_bs4 w url =
     (case requests_get w url of None \<Rightarrow> None | Some text \<Rightarrow> beautiful_soup w text)"

definition fetched_playwright :: "world \<Rightarrow> string \<Rightarrow> py_error + soup option" where
  "fetched_playwright w url =
     (if loop_running w then Inl RuntimeError
      else Inr (case fst (playwright_session w url) of
                  None \<Rightarrow> None
                | Some content \<Rightarrow> beautiful_soup w content))"

text \<open>
  What either strategy does with the document it fetched: it dispatches the parser of the
  store and keeps the data only when the price is truthy.
\<close>

definition parsed :: "string \<Rightarrow> string \<Rightarrow> soup option \<Rightarrow> raw option" where
  "parsed url store doc =
     (case doc of
        None \<Rightarrow> None
      | Some soup \<Rightarrow>
          (let data = PARSERS_get store soup url
           in if truthy (d_price data) then Some data else None))"


section \<open>Example inputs\<close>

text \<open>
  A page of a store served by the generic parser: one element of class \<open>price\<close> and a
  text node saying that the product is out of stock. Two worlds in which the plain request
  fails and the browser renders that page (their page sources differ in a trailing blank),
  a world in which the request fails and the navigation of the browser raises, and that
  world with the call made from inside a running event loop.
\<close>

definition example_soup :: soup where
  "example_soup =
     \<lparr>find_all = (\<lambda>sel.
          if sel = Selector None [(''class'', Re_I ''price|precio'')]
          then [\<lparr>el_name = ''span'', el_text = ''$ 1.234,50'',
                 el_attrs = [(''class'', ''price'')]\<rparr>]
          else []),
       find_all_string = (\<lambda>m.
          if m = Re_I ''sin stock|agotado|no disponible'' \<or> m = Re_I ''sin stock|agotado''
          then [''Sin stock''] else [])\<rparr>"

definition example_product :: product where
  "example_product =
     \<lparr>p_id = 7, p_name = ''Notebook'', p_url = ''https://www.garbarino.com/p/1'',
      p_store = None\<rparr>"

definition example_parse :: "string \<Rightarrow> soup option" where
  "example_parse text =
     (if text = ''<html>'' \<or> text = ''<html> '' then Some example_soup else None)"

definition rendered_world :: world where
  "rendered_world =
     \<lparr>requests_get = (\<lambda>url. None), beautiful_soup = example_parse,
      pw_import_raises = False, pw_enter_raises = False, pw_call_raises = (\<lambda>c. False),
      pw_exit_raises = False, pw_page_content = (\<lambda>url. ''<html>''),
      loop_running = False\<rparr>"

definition rendered_world' :: world where
  "rendered_world' = rendered_world\<lparr>pw_page_content := (\<lambda>url. ''<html> '')\<rparr>"

definition offline_world :: world where
  "offline_world = rendered_world\<lparr>pw_call_raises := (\<lambda>c. c = Goto)\<rparr>"

definition bot_world :: world where
  "bot_world = offline_world\<lparr>loop_running := True\<rparr>"


section \<open>Properties of the string operations\<close>

lemma rfind_from_snoc:
  "rfind_from c i (s @ [x]) best = (if x = c then int (i + length s) else rfind_from c i s best)"
  by (induction s arbitrary: i best) simp_all

lemma rfind_snoc: "rfind c (s @ [x]) = (if x = c then int (length s) else rfind c s)"
  by (simp add: rfind_def rfind_from_snoc)

lemma rfind_less: "rfind c s < int (length s)"
  by (induction s rule: rev_induct) (simp add: rfind_def, simp add: rfind_snoc)

lemma rfind_later:
  "CHR '','' \<in> set s \<or> CHR ''.'' \<in> set s \<Longrightarrow>
   (rfind CHR '','' s > rfind CHR ''.'' s) = (last (filter is_sep s) = CHR '','')"
proof (induction s rule: rev_induct)
  case Nil
  then show ?case by simp
next
  case (snoc x s)
  show ?case
  proof (cases "is_sep x")
    case True
    then show ?thesis
      using rfind_less [of "CHR ''.''" s] rfind_less [of "CHR '',''" s]
      by (auto simp: rfind_snoc is_sep_def)
  next
    case False
    with snoc show ?thesis
      by (auto simp: rfind_snoc is_sep_def)
  qed
qed

lemma filter_dropWhile: "(\<And>x. Q x \<Longrightarrow> \<not> P x) \<Longrightarrow> filter P (dropWhile Q s) = filter P s"
  by (induction s) auto

lemma filter_strip: "(\<And>x. is_space x \<Longrightarrow> \<not> P x) \<Longrightarrow> filter P (strip s) = filter P s"
  by (simp add: strip_def filter_dropWhile flip: rev_filter)

lemma space_not_price: "is_space x \<Longrightarrow> \<not> (is_digit x \<or> x = CHR ''.'' \<or> x = CHR '','')"
  by (auto simp: is_space_def is_digit_def)

lemma re_sub_price_strip: "re_sub_price (strip s) = re_sub_price s"
  unfolding re_sub_price_def by (rule filter_strip) (use space_not_price in blast)

lemma filter_sep_cleaned: "filter is_sep (re_sub_price s) = filter is_sep s"
  by (auto simp: re_sub_price_def is_sep_def intro: filter_cong)

lemma set_cleaned_sep: "is_sep c \<Longrightarrow> c \<in> set (re_sub_price s) \<longleftrightarrow> c \<in> set s"
  by (auto simp: re_sub_price_def is_sep_def)


section \<open>Properties of the price normaliser\<close>

lemmas price_defs =
  parse_price_text_def strip_def is_space_def re_sub_price_def is_digit_def
  normalise_separators_def py_float_def digits_val_def digit_val_def rfind_def
  replace_char_def remove_char_def

lemma later_separator_last:
  "filter is_sep s \<noteq> [] \<Longrightarrow> later_separator s = Some (last (filter is_sep s))"
  by (cases "filter is_sep s" rule: rev_cases) (simp_all add: later_separator_def)

lemma replace_no_comma: "CHR '','' \<notin> set s \<Longrightarrow> replace_char CHR '','' d s = s"
  by (induction s) (auto simp: replace_char_def)

lemma normalise_both:
  assumes c: "CHR '','' \<in> set s" and p: "CHR ''.'' \<in> set s"
  shows "\<exists>sep. later_separator s = Some sep \<and>
           normalise_separators s =
             replace_char CHR '','' CHR ''.'' (remove_char (other_separator sep) s)"
proof -
  have ne: "filter is_sep s \<noteq> []"
    using c by (auto simp: filter_empty_conv is_sep_def)
  have sep: "is_sep (last (filter is_sep s))"
    using ne last_in_set [OF ne] by auto
  show ?thesis
  proof (cases "last (filter is_sep s) = CHR '',''")
    case True
    then show ?thesis
      using c p rfind_later [of s] later_separator_last [OF ne]
      by (simp add: normalise_separators_def other_separator_def)
  next
    case False
    then have dot: "last (filter is_sep s) = CHR ''.''"
      using sep by (simp add: is_sep_def)
    have "replace_char CHR '','' CHR ''.'' (remove_char CHR '','' s) = remove_char CHR '','' s"
      by (rule replace_no_comma) (simp add: remove_char_def)
    then show ?thesis
      using c p rfind_later [of s] later_separator_last [OF ne] dot
      by (simp add: normalise_separators_def other_separator_def)
  qed
qed

lemma later_separator_cleaned: "later_separator (re_sub_price (strip s)) = later_separator s"
proof -
  have "filter is_sep (strip s) = filter is_sep s"
    by (rule filter_strip) (auto simp: is_space_def is_sep_def)
  then show ?thesis
    by (simp add: later_separator_def filter_sep_cleaned)
qed

lemma set_strip_sep: "is_sep c \<Longrightarrow> c \<in> set (strip s) \<longleftrightarrow> c \<in> set s"
proof -
  assume a: "is_sep c"
  have "filter (\<lambda>x. x = c) (strip s) = filter (\<lambda>x. x = c) s"
    by (rule filter_strip) (use a in \<open>auto simp: is_space_def is_sep_def\<close>)
  then have "set (filter (\<lambda>x. x = c) (strip s)) = set (filter (\<lambda>x. x = c) s)" by simp
  then show ?thesis by auto
qed

text \<open>
  Claim C1. For every text that contains both a comma and a period, \<open>parse_price_text\<close>
  removes every occurrence of the separator that is not the later one and reads the
  later one as the decimal point: the result is the float of the cleaned text with the
  other separator removed and the comma, where it is the later one, written as a period.
  In particular \<open>1.234.567,89\<close> gives 1234567.89 and \<open>1,234.56\<close> gives 1234.56.
\<close>

theorem parse_price_text_both_separators:
  assumes "CHR '','' \<in> set text" and "CHR ''.'' \<in> set text"
  shows "(\<exists>sep. later_separator text = Some sep \<and>
            parse_price_text text =
              py_float (replace_char CHR '','' CHR ''.''
                          (remove_char (other_separator sep) (re_sub_price (strip text)))))
         \<and> parse_price_text ''1.234.567,89'' = Some (123456789 / 100)
         \<and> parse_price_text ''1,234.56'' = Some (123456 / 100)"
proof -
  let ?cleaned = "re_sub_price (strip text)"
  have c: "CHR '','' \<in> set ?cleaned" and p: "CHR ''.'' \<in> set ?cleaned"
    using assms by (simp_all add: set_cleaned_sep set_strip_sep is_sep_def)
  have ne: "text \<noteq> []" using assms by auto
  have "\<exists>sep. later_separator text = Some sep \<and>
            parse_price_text text =
              py_float (replace_char CHR '','' CHR ''.''
                          (remove_char (other_separator sep) ?cleaned))"
    using normalise_both [OF c p] ne
    by (auto simp: parse_price_text_def later_separator_cleaned)
  moreover have "parse_price_text ''1.234.567,89'' = Some (123456789 / 100)"
    by (simp add: price_defs)
  moreover have "parse_price_text ''1,234.56'' = Some (123456 / 100)"
    by (simp add: price_defs)
  ultimately show ?thesis by blast
qed

theorem parse_price_text_both_separators_witness:
  "CHR '','' \<in> set ''1.234.567,89'' \<and> CHR ''.'' \<in> set ''1.234.567,89''
   \<and> later_separator ''1.234.567,89'' = Some CHR '',''
   \<and> parse_price_text ''1.234.567,89'' = py_float ''1234567.89''"
proof -
  have c: "CHR '','' \<in> set ''1.234.567,89''" and p: "CHR ''.'' \<in> set ''1.234.567,89''"
    by simp_all
  have l: "later_separator ''1.234.567,89'' = Some CHR '',''"
    by (simp add: later_separator_def is_sep_def)
  have r: "replace_char CHR '','' CHR ''.''
             (remove_char (other_separator CHR '','') (re_sub_price (strip ''1.234.567,89'')))
           = ''1234567.89''"
    by (simp add: other_separator_def price_defs)
  show ?thesis
    using parse_price_text_both_separators [OF c p] c p l r by auto
qed

lemma remove_first_count:
  "remove_first c (count_list a c) (a @ rest) = remove_char c a @ remove_first c 0 rest"
  by (induction a) (simp_all add: remove_char_def)

lemma remove_first_zero: "remove_first c 0 s = s"
  by (induction s) simp_all

lemma remove_char_absent: "c \<notin> set s \<Longrightarrow> remove_char c s = s"
  by (induction s) (auto simp: remove_char_def)

lemma normalise_periods:
  assumes "CHR '','' \<notin> set a" and "CHR '','' \<notin> set b" and "CHR ''.'' \<notin> set b"
  shows "normalise_separators (a @ ''.'' @ b) = remove_char CHR ''.'' a @ ''.'' @ b"
proof -
  have cnt: "count_list (a @ ''.'' @ b) CHR ''.'' = count_list a CHR ''.'' + 1"
    using assms by (simp add: count_notin)
  show ?thesis
  proof (cases "CHR ''.'' \<in> set a")
    case True
    then have "0 < count_list a CHR ''.''"
      using count_list_0_iff [of a "CHR ''.''"] by simp
    then show ?thesis
      using assms cnt remove_first_count [of "CHR ''.''" a "''.'' @ b"]
      by (simp add: normalise_separators_def remove_first_zero)
  next
    case False
    then have "count_list a CHR ''.'' = 0" by (simp add: count_notin)
    then show ?thesis
      using assms cnt False by (simp add: normalise_separators_def remove_char_absent)
  qed
qed

text \<open>
  Claim C5, as amended. When the cleaned text has no comma, every period except the last
  is removed and the last period stays the decimal point: \<open>12.345\<close> gives 12.345 and
  \<open>1.234.567\<close> gives 1234.567.
\<close>

theorem parse_price_text_periods_only:
  assumes "text \<noteq> []" and "re_sub_price (strip text) = a @ ''.'' @ b"
    and "CHR '','' \<notin> set a" and "CHR '','' \<notin> set b" and "CHR ''.'' \<notin> set b"
  shows "parse_price_text text = py_float (remove_char CHR ''.'' a @ ''.'' @ b)
         \<and> parse_price_text ''12.345'' = Some (12345 / 1000)
         \<and> parse_price_text ''1.234.567'' = Some (1234567 / 1000)"
proof -
  have "normalise_separators (re_sub_price (strip text)) = remove_char CHR ''.'' a @ ''.'' @ b"
    using assms(2) normalise_periods [OF assms(3-5)] by simp
  then have "parse_price_text text = py_float (remove_char CHR ''.'' a @ ''.'' @ b)"
    using assms(1) by (simp add: parse_price_text_def)
  moreover have "parse_price_text ''12.345'' = Some (12345 / 1000)"
    by (simp add: price_defs)
  moreover have "parse_price_text ''1.234.567'' = Some (1234567 / 1000)"
    by (simp add: price_defs)
  ultimately show ?thesis by blast
qed

theorem parse_price_text_periods_only_witness:
  "''1.234.567'' \<noteq> [] \<and> re_sub_price (strip ''1.234.567'') = ''1.234'' @ ''.'' @ ''567''
   \<and> CHR '','' \<notin> set ''1.234'' \<and> CHR '','' \<notin> set ''567'' \<and> CHR ''.'' \<notin> set ''567''
   \<and> parse_price_text ''1.234.567'' = py_float ''1234.567''"
proof -
  have h1: "''1.234.567'' \<noteq> []" by simp
  have h2: "re_sub_price (strip ''1.234.567'') = ''1.234'' @ ''.'' @ ''567''"
    by (simp add: price_defs)
  have h3: "CHR '','' \<notin> set ''1.234''" and h4: "CHR '','' \<notin> set ''567''"
    and h5: "CHR ''.'' \<notin> set ''567''"
    by simp_all
  have r: "remove_char CHR ''.'' ''1.234'' @ ''.'' @ ''567'' = ''1234.567''"
    by (simp add: remove_char_def)
  show ?thesis
    using parse_price_text_periods_only [OF h1 h2 h3 h4 h5] h1 h2 h3 h4 h5 r by simp
qed

text \<open>
  Claim C5 as stated fails: \<open>12.345\<close> has a single period, which the \<^verbatim>\<open>elif\<close> chain
  leaves in place, and the result is 12.345, not 12345.
\<close>

theorem parse_price_text_single_period_counterexample:
  "parse_price_text ''12.345'' \<noteq> Some 12345"
  by (simp add: price_defs)


section \<open>Properties of the store detector\<close>

lemmas detect_defs = detect_store_def lower_def lower_char_def contains_def sublist_code

lemma upper_codes:
  "map (of_char :: char \<Rightarrow> nat) ''ABCDEFGHIJKLMNOPQRSTUVWXYZ'' = [65 ..< 91]"
  by (simp add: upt_rec)

lemma lower_codes:
  "map (of_char :: char \<Rightarrow> nat) ''abcdefghijklmnopqrstuvwxyz'' = [97 ..< 123]"
  by (simp add: upt_rec)

lemma upper_iff:
  "c \<in> set ''ABCDEFGHIJKLMNOPQRSTUVWXYZ''
     \<longleftrightarrow> 65 \<le> (of_char c :: nat) \<and> (of_char c :: nat) \<le> 90"
proof -
  have "(of_char c :: nat) \<in> set (map of_char ''ABCDEFGHIJKLMNOPQRSTUVWXYZ'')
          \<longleftrightarrow> c \<in> set ''ABCDEFGHIJKLMNOPQRSTUVWXYZ''"
    unfolding set_map by (rule inj_image_mem_iff) (rule inj_of_char)
  then have "c \<in> set ''ABCDEFGHIJKLMNOPQRSTUVWXYZ'' \<longleftrightarrow> (of_char c :: nat) \<in> {65..<91}"
    by (simp only: upper_codes set_upt)
  also have "\<dots> \<longleftrightarrow> 65 \<le> (of_char c :: nat) \<and> (of_char c :: nat) \<le> 90"
    by (simp only: atLeastLessThan_iff) arith
  finally show ?thesis .
qed

lemma lower_char_other:
  "c \<notin> set ''ABCDEFGHIJKLMNOPQRSTUVWXYZ'' \<Longrightarrow> lower_char c = c"
  by (simp add: lower_char_def)

lemma lower_table:
  "map lower_char ''ABCDEFGHIJKLMNOPQRSTUVWXYZ'' = ''abcdefghijklmnopqrstuvwxyz''"
  by (simp add: lower_char_def)

lemma shifted_table:
  "map (\<lambda>c. char_of ((of_char c :: nat) + 32)) ''ABCDEFGHIJKLMNOPQRSTUVWXYZ''
     = ''abcdefghijklmnopqrstuvwxyz''"
  by (simp add: char_of_eq_iff)

lemma lower_char_upper:
  assumes "c \<in> set ''ABCDEFGHIJKLMNOPQRSTUVWXYZ''"
  shows "lower_char c = char_of ((of_char c :: nat) + 32)"
proof -
  have "map lower_char ''ABCDEFGHIJKLMNOPQRSTUVWXYZ''
          = map (\<lambda>c. char_of ((of_char c :: nat) + 32)) ''ABCDEFGHIJKLMNOPQRSTUVWXYZ''"
    by (simp only: lower_table shifted_table)
  then show ?thesis
    using assms by (simp only: map_eq_conv)
qed

lemma lower_char_ascii_lower: "lower_char c = ascii_lower c"
proof (cases "c \<in> set ''ABCDEFGHIJKLMNOPQRSTUVWXYZ''")
  case True
  then show ?thesis
    using lower_char_upper [OF True] upper_iff [of c] by (simp add: ascii_lower_def)
next
  case False
  then have r: "\<not> (65 \<le> (of_char c :: nat) \<and> (of_char c :: nat) \<le> 90)"
    using upper_iff [of c] by blast
  have "ascii_lower c = c"
    unfolding ascii_lower_def using r by (rule if_not_P)
  then show ?thesis
    using lower_char_other [OF False] by (simp only:)
qed

lemma lower_char_idem: "lower_char (lower_char c) = lower_char c"
proof (cases "c \<in> set ''ABCDEFGHIJKLMNOPQRSTUVWXYZ''")
  case True
  then have "lower_char c \<in> set (map lower_char ''ABCDEFGHIJKLMNOPQRSTUVWXYZ'')"
    by (simp only: set_map) (rule imageI)
  then have "lower_char c \<in> set ''abcdefghijklmnopqrstuvwxyz''"
    by (simp only: lower_table)
  then have "lower_char c \<notin> set ''ABCDEFGHIJKLMNOPQRSTUVWXYZ''"
    by auto
  then show ?thesis by (rule lower_char_other)
next
  case False
  then show ?thesis by (simp add: lower_char_other)
qed

lemma lower_idem: "lower (lower s) = lower s"
  by (simp add: lower_def lower_char_idem)

lemma lower_ascii_lower: "lower s = map ascii_lower s"
  by (simp add: lower_def lower_char_ascii_lower)

lemma small_iff:
  "c \<in> set ''abcdefghijklmnopqrstuvwxyz''
     \<longleftrightarrow> 97 \<le> (of_char c :: nat) \<and> (of_char c :: nat) \<le> 122"
proof -
  have "(of_char c :: nat) \<in> set (map of_char ''abcdefghijklmnopqrstuvwxyz'')
          \<longleftrightarrow> c \<in> set ''abcdefghijklmnopqrstuvwxyz''"
    unfolding set_map by (rule inj_image_mem_iff) (rule inj_of_char)
  then have "c \<in> set ''abcdefghijklmnopqrstuvwxyz'' \<longleftrightarrow> (of_char c :: nat) \<in> {97..<123}"
    by (simp only: lower_codes set_upt)
  also have "\<dots> \<longleftrightarrow> 97 \<le> (of_char c :: nat) \<and> (of_char c :: nat) \<le> 122"
    by (simp only: atLeastLessThan_iff) arith
  finally show ?thesis .
qed

lemma upper_table:
  "map (\<lambda>c. lower_char (char_of ((of_char c :: nat) - 32))) ''abcdefghijklmnopqrstuvwxyz''
     = map lower_char ''abcdefghijklmnopqrstuvwxyz''"
  by (simp add: lower_char_def char_of_eq_iff)

lemma lower_char_ascii_upper: "lower_char (ascii_upper c) = lower_char c"
proof (cases "c \<in> set ''abcdefghijklmnopqrstuvwxyz''")
  case True
  then have "lower_char (char_of ((of_char c :: nat) - 32)) = lower_char c"
    using upper_table by (simp only: map_eq_conv)
  then show ?thesis
    using True small_iff [of c] by (simp add: ascii_upper_def)
next
  case False
  then have r: "\<not> (97 \<le> (of_char c :: nat) \<and> (of_char c :: nat) \<le> 122)"
    using small_iff [of c] by blast
  have "ascii_upper c = c"
    unfolding ascii_upper_def using r by (rule if_not_P)
  then show ?thesis by (simp only:)
qed

lemma lower_map_ascii_upper: "lower (map ascii_upper s) = lower s"
  by (simp add: lower_def lower_char_ascii_upper)

lemma detect_store_lower: "detect_store url = first_match store_table (lower url)"
  by (simp add: detect_store_def store_table_def Let_def)

text \<open>
  Claim C6. \<open>detect_store\<close> is a total function of the URL alone. For every URL of
  ASCII characters it is the first match, in the ordered table of substring predicates,
  of the URL with its capital letters replaced by small ones, and \<open>generic\<close> when no
  pattern occurs; its value is always one of the eight store identifiers, and it does not
  change when the letters of the URL are put in upper or in lower case. The two URLs of
  the specification give \<open>mercadolibre\<close> and \<open>generic\<close>; a URL spelling the store in
  capitals is detected all the same, and where two patterns occur the earlier entry of
  the table wins.
\<close>

theorem detect_store_first_match:
  assumes "list_all is_ascii url"
  shows "detect_store url = detect_spec url
   \<and> detect_store url \<in> set store_identifiers
   \<and> detect_store (map ascii_upper url) = detect_store url
   \<and> detect_store (map ascii_lower url) = detect_store url
   \<and> detect_store ''https://articulo.mercadolibre.com.ar/x'' = ''mercadolibre''
   \<and> detect_store ''https://unknownshop.com/p'' = ''generic''
   \<and> detect_store ''https://www.AMAZON.com/dp/1'' = ''amazon''
   \<and> detect_store ''HTTPS://WWW.FULLH4RD.COM/PROD/1'' = ''fullh4rd''
   \<and> detect_store ''https://hardgamers.com.ar/amazon-kindle'' = ''amazon''"
proof -
  have "detect_store url = detect_spec url"
    by (simp only: detect_store_lower detect_spec_def lower_ascii_lower)
  moreover have "detect_store url \<in> set store_identifiers"
    by (simp add: detect_store_def store_identifiers_def Let_def)
  moreover have "detect_store (map ascii_upper url) = detect_store url"
    by (simp only: detect_store_lower lower_map_ascii_upper)
  moreover have "detect_store (map ascii_lower url) = detect_store url"
    using lower_idem [of url] by (simp only: detect_store_lower lower_ascii_lower)
  moreover have "detect_store ''https://articulo.mercadolibre.com.ar/x'' = ''mercadolibre''"
    by (simp add: detect_defs)
  moreover have "detect_store ''https://unknownshop.com/p'' = ''generic''"
    by (simp add: detect_defs)
  moreover have "detect_store ''https://www.AMAZON.com/dp/1'' = ''amazon''"
    by (simp add: detect_defs)
  moreover have "detect_store ''HTTPS://WWW.FULLH4RD.COM/PROD/1'' = ''fullh4rd''"
    by (simp add: detect_defs)
  moreover have "detect_store ''https://hardgamers.com.ar/amazon-kindle'' = ''amazon''"
    by (simp add: detect_defs)
  ultimately show ?thesis by blast
qed

theorem detect_store_first_match_witness:
  "list_all is_ascii ''https://www.AMAZON.com/dp/1''
   \<and> detect_spec ''https://www.AMAZON.com/dp/1'' = ''amazon''
   \<and> detect_store (map ascii_upper ''https://www.AMAZON.com/dp/1'') = ''amazon''"
proof -
  have h: "list_all is_ascii ''https://www.AMAZON.com/dp/1''"
    by (simp add: is_ascii_def)
  note t = detect_store_first_match [OF h]
  have a: "detect_store ''https://www.AMAZON.com/dp/1'' = detect_spec ''https://www.AMAZON.com/dp/1''"
    using t by (rule conjunct1)
  have b: "detect_store ''https://www.AMAZON.com/dp/1'' = ''amazon''"
    using t by blast
  have c: "detect_store (map ascii_upper ''https://www.AMAZON.com/dp/1'')
             = detect_store ''https://www.AMAZON.com/dp/1''"
    using t by blast
  show ?thesis
  proof (intro conjI)
    show "list_all is_ascii ''https://www.AMAZON.com/dp/1''" by (rule h)
    show "detect_spec ''https://www.AMAZON.com/dp/1'' = ''amazon''"
      by (rule trans [OF a [symmetric] b])
    show "detect_store (map ascii_upper ''https://www.AMAZON.com/dp/1'') = ''amazon''"
      by (rule trans [OF c b])
  qed
qed


section \<open>Properties of the parsers\<close>

lemma py_float_nonneg: "py_float s = Some v \<Longrightarrow> 0 \<le> v"
  by (auto simp: py_float_def Let_def split: list.splits if_splits)

lemma parse_price_text_nonneg: "parse_price_text t = Some v \<Longrightarrow> 0 \<le> v"
  by (auto simp: parse_price_text_def split: if_splits dest: py_float_nonneg)

lemma amazon_price_loop_nonneg:
  "amazon_price_loop soup sels p = Some v \<Longrightarrow> (\<And>u. p = Some u \<Longrightarrow> 0 \<le> u) \<Longrightarrow> 0 \<le> v"
proof (induction soup sels p rule: amazon_price_loop.induct)
  case (1 soup price)
  then show ?case by simp
next
  case (2 soup sel rest price)
  show ?case
  proof (cases "soup_find soup sel")
    case None
    with 2 show ?thesis by simp
  next
    case (Some price_tag)
    define price_text where "price_text =
      (case soup_find soup (Selector (Some ''span'') [(''class'', Str ''a-price-fraction'')]) of
         Some f \<Rightarrow> if \<not> contains ''.'' (el_text price_tag)
                   then el_text price_tag @ ''.'' @ el_text f else el_text price_tag
       | None \<Rightarrow> el_text price_tag)"
    show ?thesis
    proof (cases "truthy (parse_price_text price_text)")
      case True
      with 2(3) Some have "parse_price_text price_text = Some v"
        by (simp add: price_text_def Let_def)
      then show ?thesis by (rule parse_price_text_nonneg)
    next
      case False
      with 2(3) Some have l: "amazon_price_loop soup rest (parse_price_text price_text) = Some v"
        by (simp add: price_text_def Let_def)
      show ?thesis
        using 2(2) [OF Some refl refl refl refl False [unfolded price_text_def] l [unfolded price_text_def]]
          parse_price_text_nonneg by (simp add: price_text_def)
    qed
  qed
qed

lemma generic_price_loop_pos: "generic_price_loop tags = Some v \<Longrightarrow> 0 < v"
  by (induction tags) (auto simp: Let_def split: option.splits if_splits)

lemma parse_mercadolibre_nonneg: "d_price (parse_mercadolibre soup url) = Some v \<Longrightarrow> 0 \<le> v"
  by (auto simp: parse_mercadolibre_def Let_def split: option.splits if_splits
           dest: parse_price_text_nonneg)

lemma parse_amazon_nonneg: "d_price (parse_amazon soup url) = Some v \<Longrightarrow> 0 \<le> v"
proof -
  assume a: "d_price (parse_amazon soup url) = Some v"
  have "d_price (parse_amazon soup url) = amazon_price_loop soup price_selectors None"
    by (simp add: parse_amazon_def Let_def split: option.splits)
  with a show ?thesis
    using amazon_price_loop_nonneg [of soup price_selectors None v] by simp
qed

lemma parse_hardgamers_nonneg: "d_price (parse_hardgamers soup url) = Some v \<Longrightarrow> 0 \<le> v"
  by (auto simp: parse_hardgamers_def Let_def split: option.splits if_splits
           dest: parse_price_text_nonneg)

lemma parse_generic_nonneg: "d_price (parse_generic soup url) = Some v \<Longrightarrow> 0 \<le> v"
  by (auto simp: parse_generic_def Let_def split: option.splits if_splits
           dest: parse_price_text_nonneg generic_price_loop_pos)

lemma PARSERS_get_cases:
  "PARSERS_get store = parse_mercadolibre \<or> PARSERS_get store = parse_amazon
   \<or> PARSERS_get store = parse_hardgamers \<or> PARSERS_get store = parse_generic"
  by (simp add: PARSERS_get_def PARSERS_def)

lemma parser_price_nonneg: "d_price (PARSERS_get store soup url) = Some v \<Longrightarrow> 0 \<le> v"
  using PARSERS_get_cases [of store]
  by (auto dest: parse_mercadolibre_nonneg parse_amazon_nonneg parse_hardgamers_nonneg
                 parse_generic_nonneg)

lemma truthy_parser_pos:
  "truthy (d_price (PARSERS_get store soup url)) \<Longrightarrow>
   \<exists>v. d_price (PARSERS_get store soup url) = Some v \<and> 0 < v"
  using parser_price_nonneg [of store soup url]
  by (cases "d_price (PARSERS_get store soup url)") (auto simp: truthy_def)


section \<open>Properties of the strategies and the orchestrator\<close>

lemma scrape_with_bs4_fetched:
  "scrape_with_bs4 w url store = parsed url store (fetched_bs4 w url)"
  by (simp add: scrape_with_bs4_def fetched_bs4_def parsed_def split: option.splits)

lemma scrape_with_playwright_fetched:
  "scrape_with_playwright w url store =
     (case fetched_playwright w url of
        Inl e \<Rightarrow> Inl e
      | Inr doc \<Rightarrow> Inr (parsed url store doc))"
  by (simp add: scrape_with_playwright_def scrape_with_playwright_async_def
        fetched_playwright_def parsed_def Let_def split: option.splits prod.splits)

lemma parsed_Some: "parsed url store doc = Some d \<Longrightarrow> \<exists>v. d_price d = Some v \<and> 0 < v"
  by (auto simp: parsed_def Let_def split: option.splits if_splits dest: truthy_parser_pos)

lemma has_price_parsed: "has_price (parsed url store doc) = (parsed url store doc \<noteq> None)"
  by (auto simp: has_price_def parsed_def Let_def split: option.splits)

lemma scrape_product_parsed:
  "scrape_product w product =
     (let url = p_url product; store = resolve_store product
      in case parsed url store (fetched_bs4 w url) of
           Some d \<Rightarrow> Inr (scrape_result product store (Some d))
         | None \<Rightarrow>
             (case fetched_playwright w url of
                Inl e \<Rightarrow> Inl e
              | Inr doc \<Rightarrow> Inr (scrape_result product store (parsed url store doc))))"
  unfolding scrape_product_def scrape_with_bs4_fetched scrape_with_playwright_fetched
    has_price_parsed Let_def
  by (simp split: option.splits sum.splits)

lemma scrape_product_Inr:
  assumes "scrape_product w product = Inr r"
  shows "\<exists>doc. r = scrape_result product (resolve_store product)
                     (parsed (p_url product) (resolve_store product) doc)"
proof (cases "parsed (p_url product) (resolve_store product) (fetched_bs4 w (p_url product))")
  case None
  with assms show ?thesis
    by (auto simp: scrape_product_parsed Let_def split: sum.splits)
next
  case (Some d)
  with assms have "r = scrape_result product (resolve_store product)
                         (parsed (p_url product) (resolve_store product)
                            (fetched_bs4 w (p_url product)))"
    by (simp add: scrape_product_parsed Let_def)
  then show ?thesis by blast
qed

lemma scrape_result_price_error:
  "(r_price (scrape_result product store data) = None)
     = (\<exists>e. r_error (scrape_result product store data) = Some e \<and> e \<noteq> [])
   \<and> (r_price (scrape_result product store data) \<noteq> None)
     = (r_error (scrape_result product store data) = None)"
  by (auto simp: scrape_result_def Let_def truthy_def split: option.splits)

lemma scrape_result_positive:
  assumes "r_error (scrape_result product store (parsed url store doc)) = None"
  shows "\<exists>v. r_price (scrape_result product store (parsed url store doc)) = Some v \<and> 0 < v"
proof (cases "parsed url store doc")
  case None
  with assms show ?thesis by (simp add: scrape_result_def)
next
  case (Some d)
  with assms parsed_Some [OF Some] show ?thesis
    by (auto simp: scrape_result_def Let_def split: if_splits)
qed

text \<open>
  Claim C2. In every result that \<open>scrape_product\<close> returns, the price is absent exactly
  when the error is set to a non-empty description, and present exactly when the error is
  unset.
\<close>

theorem scrape_product_price_iff_error:
  assumes "scrape_product w product = Inr r"
  shows "(r_price r = None) = (\<exists>e. r_error r = Some e \<and> e \<noteq> [])
         \<and> (r_price r \<noteq> None) = (r_error r = None)"
proof -
  obtain doc where r: "r = scrape_result product (resolve_store product)
                             (parsed (p_url product) (resolve_store product) doc)"
    using scrape_product_Inr [OF assms] by blast
  show ?thesis
    unfolding r by (rule scrape_result_price_error)
qed

text \<open>
  Claim C9. Every result that \<open>scrape_product\<close> returns with the error unset carries a
  strictly positive price: a price of 0 is never returned as a success.
\<close>

theorem scrape_product_price_positive:
  assumes "scrape_product w product = Inr r" and "r_error r = None"
  shows "\<exists>v. r_price r = Some v \<and> 0 < v"
  using scrape_product_Inr [OF assms(1)] assms(2) scrape_result_positive by blast

text \<open>
  Claim C3. When the lightweight strategy yields nothing and the heavy strategy fetches a
  document from which the parser of the store extracts a price, \<open>scrape_product\<close>
  returns the success result built from the data of that document: its price, currency
  and stock flag, and its name unless it is empty, with the error unset.
\<close>

theorem scrape_product_falls_back:
  assumes "scrape_with_bs4 w (p_url product) (resolve_store product) = None"
    and "fetched_playwright w (p_url product) = Inr (Some doc)"
    and "truthy (d_price (PARSERS_get (resolve_store product) doc (p_url product)))"
  shows "scrape_product w product =
           (let data = PARSERS_get (resolve_store product) doc (p_url product)
            in Inr \<lparr>r_product_id = p_id product,
                     r_name = (if d_name data \<noteq> [] then d_name data else p_name product),
                     r_url = p_url product, r_store = resolve_store product,
                     r_price = d_price data, r_currency = d_currency data,
                     r_in_stock = d_in_stock data, r_error = None\<rparr>)"
  using assms unfolding scrape_product_parsed
  by (simp add: scrape_with_bs4_fetched parsed_def scrape_result_def Let_def)

text \<open>
  When both strategies return \<open>None\<close>, the result is the failure record: no price, the
  fixed error message, the stock flag false and the name of the input.
\<close>

lemma scrape_product_both_None:
  assumes "scrape_with_bs4 w (p_url product) (resolve_store product) = None"
    and "scrape_with_playwright w (p_url product) (resolve_store product) = Inr None"
  shows "scrape_product w product =
           Inr \<lparr>r_product_id = p_id product, r_name = p_name product, r_url = p_url product,
                r_store = resolve_store product, r_price = None, r_currency = ''ARS'',
                r_in_stock = False,
                r_error = Some ''No se pudo extraer el precio con BS4 ni Playwright.''\<rparr>"
  using assms by (simp add: scrape_product_def scrape_result_def Let_def has_price_def)

text \<open>
  Claim C7. The outcome of \<open>scrape_product\<close> depends on the world only through what the
  two strategies fetch: two runs on the same product, in worlds where the lightweight
  fetches agree and the heavy fetches agree, have the same outcome.
\<close>

theorem scrape_product_deterministic:
  assumes "fetched_bs4 w1 (p_url product) = fetched_bs4 w2 (p_url product)"
    and "fetched_playwright w1 (p_url product) = fetched_playwright w2 (p_url product)"
  shows "scrape_product w1 product = scrape_product w2 product"
  using assms by (simp add: scrape_product_parsed Let_def split: option.splits)

lemma run_calls_no_Exit: "Exit \<notin> set (fst (run_calls raises cs))"
  by (induction cs) (auto split: prod.splits)

lemma count_list_Exit_run_calls: "count_list (fst (run_calls raises cs)) Exit = 0"
  using run_calls_no_Exit count_list_0_iff by fastforce

lemma async_trace: "snd (scrape_with_playwright_async w url store) = snd (playwright_session w url)"
  by (simp add: scrape_with_playwright_async_def Let_def split: prod.splits option.splits)

text \<open>
  Claim C8. A heavy-strategy call that has started its Playwright session leaves it
  through \<^verbatim>\<open>__aexit__\<close> exactly once, as the last call of the session, whichever of
  the calls inside the block raises and whether or not the parsing afterwards succeeds.
  (\<^verbatim>\<open>browser.close()\<close> itself is reached only when no earlier call raised; on the other
  paths the session is stopped by the exit of the block alone.)
\<close>

theorem playwright_session_torn_down_once:
  assumes "\<not> pw_import_raises w" and "\<not> pw_enter_raises w"
  shows "count_list (snd (scrape_with_playwright_async w url store)) Exit = 1
         \<and> last (snd (scrape_with_playwright_async w url store)) = Exit"
proof -
  obtain evs ok where r: "run_calls (pw_call_raises w) session_calls = (evs, ok)"
    by (cases "run_calls (pw_call_raises w) session_calls")
  have "count_list evs Exit = 0"
    using count_list_Exit_run_calls [of "pw_call_raises w" session_calls] r by simp
  then show ?thesis
    using assms r by (simp add: async_trace playwright_session_def Let_def)
qed

lemma soup_find_strings: "soup_find (soup\<lparr>find_all_string := strings\<rparr>) sel = soup_find soup sel"
  by (simp add: soup_find_def)

text \<open>
  Claim C10. The generic parser reports every document as in stock, its result does not
  depend on the text nodes of the document at all, and it is the parser registered for
  garbarino, fravega, musimundo and fullh4rd (and for generic). The example page carries
  the text \<open>Sin stock\<close>: as a garbarino page it is reported in stock, while the
  hardgamers parser reports the same page out of stock.
\<close>

theorem parse_generic_always_in_stock:
  "d_in_stock (parse_generic soup url)
   \<and> parse_generic (soup\<lparr>find_all_string := strings\<rparr>) url = parse_generic soup url
   \<and> PARSERS_get ''garbarino'' = parse_generic
   \<and> PARSERS_get ''fravega'' = parse_generic
   \<and> PARSERS_get ''musimundo'' = parse_generic
   \<and> PARSERS_get ''fullh4rd'' = parse_generic
   \<and> PARSERS_get ''generic'' = parse_generic
   \<and> soup_find_string example_soup (Re_I ''sin stock|agotado'') = Some ''Sin stock''
   \<and> d_in_stock (PARSERS_get ''garbarino'' example_soup url)
   \<and> \<not> d_in_stock (parse_hardgamers example_soup url)"
proof -
  have always: "d_in_stock (parse_generic doc u)" for doc u
    by (simp add: parse_generic_def Let_def split: option.splits)
  have "parse_generic (soup\<lparr>find_all_string := strings\<rparr>) url = parse_generic soup url"
    by (simp add: parse_generic_def soup_find_strings Let_def cong: option.case_cong)
  moreover have registered: "PARSERS_get ''garbarino'' = parse_generic"
    and "PARSERS_get ''fravega'' = parse_generic"
    and "PARSERS_get ''musimundo'' = parse_generic"
    and "PARSERS_get ''fullh4rd'' = parse_generic"
    and "PARSERS_get ''generic'' = parse_generic"
    by (simp_all add: PARSERS_get_def PARSERS_def)
  moreover have "soup_find_string example_soup (Re_I ''sin stock|agotado'') = Some ''Sin stock''"
    by (simp add: soup_find_string_def example_soup_def)
  moreover have "d_in_stock (PARSERS_get ''garbarino'' example_soup url)"
    by (simp only: registered always)
  moreover have "\<not> d_in_stock (parse_hardgamers example_soup url)"
    by (simp add: parse_hardgamers_def soup_find_def soup_find_string_def example_soup_def
          or_else_def str_truthy_def)
  ultimately show ?thesis using always by blast
qed


section \<open>The properties at the example inputs\<close>

lemma example_store: "resolve_store example_product = ''garbarino''"
  by (simp add: resolve_store_def example_product_def detect_defs)

lemma example_price: "parse_price_text ''$ 1.234,50'' = Some (2469 / 2)"
  by (simp add: price_defs)

lemma example_data:
  "PARSERS_get ''garbarino'' example_soup u =
     \<lparr>d_price = Some (2469 / 2), d_currency = ''ARS'', d_in_stock = True, d_name = ''''\<rparr>"
  by (simp add: PARSERS_get_def PARSERS_def parse_generic_def soup_find_def example_soup_def
        example_price)

lemma rendered_session:
  "playwright_session rendered_world u =
     (Some ''<html>'',
      [Enter, Call Launch, Call New_context, Call New_page, Call Route, Call Goto,
       Call Wait_for_timeout, Call Content, Call Browser_close, Exit])"
  by (simp add: playwright_session_def rendered_world_def session_calls_def)

lemma rendered_session':
  "fst (playwright_session rendered_world' u) = Some ''<html> ''"
  by (simp add: playwright_session_def rendered_world'_def rendered_world_def session_calls_def)

lemma offline_session:
  "playwright_session offline_world u =
     (None, [Enter, Call Launch, Call New_context, Call New_page, Call Route, Call Goto, Exit])"
  by (simp add: playwright_session_def offline_world_def rendered_world_def session_calls_def)

lemma rendered_fetched: "fetched_playwright rendered_world u = Inr (Some example_soup)"
  by (simp add: fetched_playwright_def rendered_session)
     (simp add: rendered_world_def example_parse_def)

lemma rendered_fetched': "fetched_playwright rendered_world' u = Inr (Some example_soup)"
  by (simp add: fetched_playwright_def rendered_session')
     (simp add: rendered_world'_def rendered_world_def example_parse_def)

lemma no_response:
  "fetched_bs4 rendered_world u = None" "fetched_bs4 rendered_world' u = None"
  "fetched_bs4 offline_world u = None" "fetched_bs4 bot_world u = None"
  by (simp_all add: fetched_bs4_def rendered_world_def rendered_world'_def offline_world_def
        bot_world_def)

lemma no_bs4_data:
  "scrape_with_bs4 rendered_world u st = None" "scrape_with_bs4 bot_world u st = None"
  by (simp_all add: scrape_with_bs4_fetched no_response parsed_def)

lemma rendered_result:
  "scrape_product rendered_world example_product =
     Inr \<lparr>r_product_id = 7, r_name = ''Notebook'', r_url = ''https://www.garbarino.com/p/1'',
          r_store = ''garbarino'', r_price = Some (2469 / 2), r_currency = ''ARS'',
          r_in_stock = True, r_error = None\<rparr>"
  by (simp add: scrape_product_parsed no_response rendered_fetched parsed_def example_store
        example_data truthy_def scrape_result_def)
     (simp add: example_product_def)

theorem scrape_product_price_iff_error_witness:
  "\<exists>r. scrape_product rendered_world example_product = Inr r
       \<and> r_price r \<noteq> None
       \<and> (r_price r = None) = (\<exists>e. r_error r = Some e \<and> e \<noteq> [])
       \<and> (r_price r \<noteq> None) = (r_error r = None)"
proof -
  let ?r = "\<lparr>r_product_id = 7, r_name = ''Notebook'',
             r_url = ''https://www.garbarino.com/p/1'', r_store = ''garbarino'',
             r_price = Some (2469 / 2), r_currency = ''ARS'', r_in_stock = True,
             r_error = None\<rparr>"
  have eq: "scrape_product rendered_world example_product = Inr ?r"
    by (rule rendered_result)
  note t = scrape_product_price_iff_error [OF eq]
  show ?thesis
  proof (intro exI conjI)
    show "scrape_product rendered_world example_product = Inr ?r" by (rule eq)
    show "r_price ?r \<noteq> None" by simp
    show "(r_price ?r = None) = (\<exists>e. r_error ?r = Some e \<and> e \<noteq> [])"
      using t by (rule conjunct1)
    show "(r_price ?r \<noteq> None) = (r_error ?r = None)"
      using t by (rule conjunct2)
  qed
qed

theorem scrape_product_price_positive_witness:
  "(\<exists>r. scrape_product rendered_world example_product = Inr r \<and> r_error r = None
        \<and> (\<exists>v. r_price r = Some v \<and> 0 < v))"
proof -
  let ?r = "\<lparr>r_product_id = 7, r_name = ''Notebook'', r_url = ''https://www.garbarino.com/p/1'',
          r_store = ''garbarino'', r_price = Some (2469 / 2), r_currency = ''ARS'',
          r_in_stock = True, r_error = None\<rparr>"
  have e: "r_error ?r = None" by simp
  show ?thesis
    using scrape_product_price_positive [OF rendered_result e] rendered_result e by blast
qed

theorem scrape_product_falls_back_witness:
  "scrape_with_bs4 rendered_world (p_url example_product) (resolve_store example_product) = None
   \<and> fetched_playwright rendered_world (p_url example_product) = Inr (Some example_soup)
   \<and> truthy (d_price (PARSERS_get (resolve_store example_product) example_soup
                         (p_url example_product)))
   \<and> scrape_product rendered_world example_product =
        Inr \<lparr>r_product_id = 7, r_name = ''Notebook'',
             r_url = ''https://www.garbarino.com/p/1'', r_store = ''garbarino'',
             r_price = Some (2469 / 2), r_currency = ''ARS'', r_in_stock = True,
             r_error = None\<rparr>"
proof -
  have h1: "scrape_with_bs4 rendered_world (p_url example_product)
              (resolve_store example_product) = None"
    by (rule no_bs4_data)
  have h2: "fetched_playwright rendered_world (p_url example_product)
              = Inr (Some example_soup)"
    by (rule rendered_fetched)
  have h3: "truthy (d_price (PARSERS_get (resolve_store example_product) example_soup
                               (p_url example_product)))"
    by (simp add: example_store example_data truthy_def)
  show ?thesis
    using scrape_product_falls_back [OF h1 h2 h3] h1 h2 h3
    by (simp add: example_store example_data) (simp add: example_product_def)
qed

text \<open>
  Claim C4 says that \<open>scrape_product\<close> returns the failure result whenever both
  strategies fail to yield a price. Called from inside a running event loop, with the
  plain request failing, it does not return: \<^verbatim>\<open>asyncio.run\<close> raises and nothing
  catches the exception.
\<close>

theorem scrape_product_raises_in_running_loop:
  "scrape_with_bs4 bot_world (p_url example_product) (resolve_store example_product) = None
   \<and> scrape_with_playwright bot_world (p_url example_product) (resolve_store example_product)
       = Inl RuntimeError
   \<and> scrape_product bot_world example_product = Inl RuntimeError"
proof -
  have h1: "scrape_with_bs4 bot_world (p_url example_product)
              (resolve_store example_product) = None"
    by (rule no_bs4_data)
  have h2: "scrape_with_playwright bot_world (p_url example_product)
              (resolve_store example_product) = Inl RuntimeError"
    by (simp add: scrape_with_playwright_def bot_world_def)
  show ?thesis
    using h1 h2 by (simp add: scrape_product_def has_price_def Let_def)
qed

theorem scrape_product_deterministic_witness:
  "fetched_bs4 rendered_world (p_url example_product)
     = fetched_bs4 rendered_world' (p_url example_product)
   \<and> fetched_playwright rendered_world (p_url example_product)
     = fetched_playwright rendered_world' (p_url example_product)
   \<and> pw_page_content rendered_world (p_url example_product)
     \<noteq> pw_page_content rendered_world' (p_url example_product)
   \<and> scrape_product rendered_world example_product
     = scrape_product rendered_world' example_product"
proof -
  have h1: "fetched_bs4 rendered_world (p_url example_product)
              = fetched_bs4 rendered_world' (p_url example_product)"
    by (simp add: no_response)
  have h2: "fetched_playwright rendered_world (p_url example_product)
              = fetched_playwright rendered_world' (p_url example_product)"
    by (simp add: rendered_fetched rendered_fetched')
  have d: "pw_page_content rendered_world (p_url example_product)
             \<noteq> pw_page_content rendered_world' (p_url example_product)"
    by (simp add: rendered_world'_def rendered_world_def)
  show ?thesis
    using scrape_product_deterministic [OF h1 h2] h1 h2 d by simp
qed

theorem playwright_session_torn_down_once_witness:
  "\<not> pw_import_raises offline_world \<and> \<not> pw_enter_raises offline_world
   \<and> pw_call_raises offline_world Goto
   \<and> scrape_with_playwright_async offline_world ''https://www.garbarino.com/p/1'' ''garbarino''
       = (None, [Enter, Call Launch, Call New_context, Call New_page, Call Route, Call Goto,
                 Exit])
   \<and> count_list (snd (scrape_with_playwright_async offline_world
                         ''https://www.garbarino.com/p/1'' ''garbarino'')) Exit = 1"
proof -
  have h1: "\<not> pw_import_raises offline_world" and h2: "\<not> pw_enter_raises offline_world"
    and g: "pw_call_raises offline_world Goto"
    by (simp_all add: offline_world_def rendered_world_def)
  have t: "scrape_with_playwright_async offline_world ''https://www.garbarino.com/p/1''
             ''garbarino''
           = (None, [Enter, Call Launch, Call New_context, Call New_page, Call Route,
                     Call Goto, Exit])"
    by (simp add: scrape_with_playwright_async_def offline_session)
  show ?thesis
    using playwright_session_torn_down_once
            [OF h1 h2, of "''https://www.garbarino.com/p/1''" "''garbarino''"] h1 h2 g t
    by simp
qed

end
